theory Spec2Isabelle
  imports Main "HOL-Library.Monad_Syntax"
begin

section \<open>The task service of go-simple-crud\<close>

text \<open>
  The repository is a REST service over one table of tasks. Its own code is the five
  handlers of \<^verbatim>\<open>handlers/tasks.go\<close> with the helpers \<^verbatim>\<open>respondWithJSON\<close> and
  \<^verbatim>\<open>respondWithError\<close>, the struct \<^verbatim>\<open>models.Task\<close> and the start-up code. The handlers
  run against three libraries: \<^verbatim>\<open>net/http\<close> (the response writer), \<^verbatim>\<open>encoding/json\<close>
  (decoding the body, encoding the envelope) and \<^verbatim>\<open>gorm.io/gorm\<close> over SQLite (the
  store). Each library is given below as a small state-passing model of the calls the
  handlers make; the handlers themselves are then transcribed statement by statement.
  The platform has 64-bit \<^verbatim>\<open>int\<close> and \<^verbatim>\<open>uint\<close>.
\<close>

subsection \<open>The data model\<close>

text \<open>
  \<^verbatim>\<open>time.Time\<close> is a number of ticks, \<open>0\<close> being the zero value \<^verbatim>\<open>time.Time{}\<close>.
  A \<^verbatim>\<open>uint\<close> identifier is a natural number up to \<open>uint_max\<close>; the handlers do no
  arithmetic on identifiers, and the two places where a range is checked (the decoder,
  which takes no number beyond \<open>uint_max\<close>, and the database, which holds none beyond
  \<open>int64_max\<close>) have the check written out.
\<close>

type_synonym time = nat

definition uint_max :: nat where
  "uint_max = 18446744073709551615"

definition int64_max :: nat where
  "int64_max = 9223372036854775807"

record Task =
  ID :: nat
  Title :: string
  Description :: string
  Status :: string
  CreatedAt :: time
  UpdatedAt :: time

text \<open>\<^verbatim>\<open>var task models.Task\<close>: every field has its zero value.\<close>

definition zero_Task :: Task where
  "zero_Task = \<lparr>ID = 0, Title = [], Description = [], Status = [], CreatedAt = 0, UpdatedAt = 0\<rparr>"

text \<open>
  The values an \<^verbatim>\<open>interface{}\<close> holds in this program: \<^verbatim>\<open>nil\<close> and a \<^verbatim>\<open>models.Task\<close>.
  \<open>VUnsupported\<close> stands for any Go value that \<^verbatim>\<open>json.Marshal\<close> rejects (a channel, a
  function); no handler builds one, but \<^verbatim>\<open>respondWithJSON\<close> accepts it.
\<close>

datatype iface = Nil | VTask Task | VUnsupported

text \<open>
  \<^verbatim>\<open>type Response struct\<close>. The field \<^verbatim>\<open>Status\<close> is named \<open>RStatus\<close> here, since
  \<open>Status\<close> is the task's field.
\<close>

record Response =
  RStatus :: int
  Message :: string
  Data :: iface

text \<open>What is passed as \<^verbatim>\<open>payload interface{}\<close>: a \<^verbatim>\<open>Response\<close> or any other value.\<close>

datatype payload = PResponse Response | PValue iface

subsection \<open>encoding/json\<close>

datatype json =
  JNull | JNum int | JStr string | JTime time | JObj "(string \<times> json) list"

datatype json_error = UnsupportedTypeError | SyntaxError | UnmarshalTypeError

text \<open>The encoding of a \<^verbatim>\<open>models.Task\<close>, one member per \<^verbatim>\<open>json\<close> tag, in field order.\<close>

definition Marshal_Task :: "Task \<Rightarrow> json" where
  "Marshal_Task t = JObj
     [(''id'', JNum (int (ID t))), (''title'', JStr (Title t)),
      (''description'', JStr (Description t)), (''status'', JStr (Status t)),
      (''created_at'', JTime (CreatedAt t)), (''updated_at'', JTime (UpdatedAt t))]"

fun Marshal_iface :: "iface \<Rightarrow> json_error + json" where
  "Marshal_iface Nil = Inr JNull"
| "Marshal_iface (VTask t) = Inr (Marshal_Task t)"
| "Marshal_iface VUnsupported = Inl UnsupportedTypeError"

text \<open>
  The encoding of a \<^verbatim>\<open>Response\<close>: \<^verbatim>\<open>status\<close> and \<^verbatim>\<open>message\<close> always, \<^verbatim>\<open>data\<close> with
  \<^verbatim>\<open>omitempty\<close>, that is, left out when the interface is \<^verbatim>\<open>nil\<close>.
\<close>

fun Marshal :: "payload \<Rightarrow> json_error + json" where
  "Marshal (PValue v) = Marshal_iface v"
| "Marshal (PResponse r) =
     (case Data r of
        Nil \<Rightarrow> Inr (JObj [(''status'', JNum (RStatus r)), (''message'', JStr (Message r))])
      | v \<Rightarrow>
         (case Marshal_iface v of
            Inl e \<Rightarrow> Inl e
          | Inr d \<Rightarrow> Inr (JObj [(''status'', JNum (RStatus r)), (''message'', JStr (Message r)),
                                (''data'', d)])))"

text \<open>
  A request body, as \<^verbatim>\<open>Decode\<close> into a \<^verbatim>\<open>models.Task\<close> sees it. \<open>Malformed\<close> is a body
  on which the decoder reports an error whatever the numbers in it: no bytes, bytes that
  are no JSON, an array, string, number or boolean where the object is expected, a
  member whose value has the wrong type. \<open>Object\<close> is a body in which each of the six
  tagged members is either present with a value of the right kind (a natural number for
  \<^verbatim>\<open>id\<close>, a string, a timestamp) or absent; a member that is \<^verbatim>\<open>null\<close> counts as absent,
  and the body \<^verbatim>\<open>null\<close> is the object with no member, since the decoder leaves the
  target untouched for both. Members with other names are skipped by the decoder.
\<close>

record TaskJSON =
  j_id :: "nat option"
  j_title :: "string option"
  j_description :: "string option"
  j_status :: "string option"
  j_created_at :: "time option"
  j_updated_at :: "time option"

datatype body = Malformed | Object TaskJSON

definition set_fields :: "TaskJSON \<Rightarrow> Task \<Rightarrow> Task" where
  "set_fields j t =
     \<lparr>ID = (case j_id j of None \<Rightarrow> ID t | Some v \<Rightarrow> v),
      Title = (case j_title j of None \<Rightarrow> Title t | Some v \<Rightarrow> v),
      Description = (case j_description j of None \<Rightarrow> Description t | Some v \<Rightarrow> v),
      Status = (case j_status j of None \<Rightarrow> Status t | Some v \<Rightarrow> v),
      CreatedAt = (case j_created_at j of None \<Rightarrow> CreatedAt t | Some v \<Rightarrow> v),
      UpdatedAt = (case j_updated_at j of None \<Rightarrow> UpdatedAt t | Some v \<Rightarrow> v)\<rparr>"

text \<open>
  \<^verbatim>\<open>decoder.Decode(&task)\<close>: members present are stored, the others keep their value. A
  number for \<^verbatim>\<open>id\<close> that does not fit \<^verbatim>\<open>uint\<close> is an error.
\<close>

fun Decode :: "body \<Rightarrow> Task \<Rightarrow> json_error + Task" where
  "Decode Malformed t = Inl SyntaxError"
| "Decode (Object j) t =
     (case j_id j of
        None \<Rightarrow> Inr (set_fields j t)
      | Some k \<Rightarrow> if uint_max < k then Inl UnmarshalTypeError else Inr (set_fields j t))"

subsection \<open>net/http: the response writer\<close>

text \<open>
  \<open>Header\<close> is the header map the handler edits, \<open>wroteHeader\<close> says whether the status
  line has been sent, \<open>status\<close> and \<open>sentHeader\<close> are what was sent then, \<open>written\<close> is the
  body: the JSON documents written so far, in order. Header names are in canonical
  form. \<^verbatim>\<open>Date\<close> and \<^verbatim>\<open>Content-Length\<close>, which the server adds by itself, are left out.
\<close>

record ResponseWriter =
  Header :: "(string \<times> string) list"
  wroteHeader :: bool
  status :: int
  sentHeader :: "(string \<times> string) list"
  written :: "json list"

definition NewWriter :: ResponseWriter where
  "NewWriter = \<lparr>Header = [], wroteHeader = False, status = 0, sentHeader = [], written = []\<rparr>"

fun update_header :: "string \<Rightarrow> string \<Rightarrow> (string \<times> string) list \<Rightarrow> (string \<times> string) list" where
  "update_header k v [] = [(k, v)]"
| "update_header k v (p # ps) = (if fst p = k then (k, v) # ps else p # update_header k v ps)"

definition Header_Set :: "ResponseWriter \<Rightarrow> string \<Rightarrow> string \<Rightarrow> ResponseWriter" where
  "Header_Set w k v = w\<lparr>Header := update_header k v (Header w)\<rparr>"

text \<open>\<^verbatim>\<open>Header.Get\<close>: the value, or the empty string.\<close>

definition header_get :: "(string \<times> string) list \<Rightarrow> string \<Rightarrow> string" where
  "header_get h k = (case map_of h k of None \<Rightarrow> [] | Some v \<Rightarrow> v)"

text \<open>
  The statuses that carry no body, and the headers the server takes out of the header
  map when it sends such a status.
\<close>

definition bodyAllowedForStatus :: "int \<Rightarrow> bool" where
  "bodyAllowedForStatus code =
     (if 100 \<le> code \<and> code \<le> 199 then False
      else if code = 204 then False
      else if code = 304 then False
      else True)"

definition suppressedHeaders :: "int \<Rightarrow> string list" where
  "suppressedHeaders code =
     (if code = 304 then [''Content-Type'', ''Content-Length'', ''Transfer-Encoding'']
      else if bodyAllowedForStatus code then []
      else [''Content-Length'', ''Transfer-Encoding''])"

definition send_header :: "int \<Rightarrow> ResponseWriter \<Rightarrow> ResponseWriter" where
  "send_header code w =
     w\<lparr>wroteHeader := True, status := code,
       sentHeader := filter (\<lambda>p. fst p \<notin> set (suppressedHeaders code)) (Header w)\<rparr>"

text \<open>
  \<^verbatim>\<open>w.WriteHeader(code)\<close>. A second call is logged as superfluous and changes nothing; a
  code outside \<open>100..999\<close> panics (the result \<open>None\<close>); an informational code other than
  101 is sent at once and leaves the final status open; any other code is the status of
  the response, sent with the header map as it is at that moment.
\<close>

definition WriteHeader :: "ResponseWriter \<Rightarrow> int \<Rightarrow> ResponseWriter option" where
  "WriteHeader w code =
     (if wroteHeader w then Some w
      else if code < 100 \<or> 999 < code then None
      else if 100 \<le> code \<and> code \<le> 199 \<and> code \<noteq> 101 then Some w
      else Some (send_header code w))"

text \<open>
  \<^verbatim>\<open>w.Write(bytes)\<close>: sends status 200 first when no status has been sent. With a status
  that carries no body the bytes are refused (\<^verbatim>\<open>ErrBodyNotAllowed\<close>, a result that
  \<^verbatim>\<open>respondWithJSON\<close> does not look at). Otherwise they are appended; when they are the
  first bytes of the body and the header sent has no \<^verbatim>\<open>Content-Type\<close> (and no content
  or transfer encoding), the server puts in the type it detects, which for a JSON text
  is plain text. The bytes are the documents of \<open>ds\<close>; \<^verbatim>\<open>nil\<close> is the empty list.
\<close>

definition sniff :: "ResponseWriter \<Rightarrow> json list \<Rightarrow> ResponseWriter" where
  "sniff w ds =
     (if ds \<noteq> [] \<and> written w = [] \<and> map_of (sentHeader w) ''Content-Type'' = None
         \<and> header_get (sentHeader w) ''Content-Encoding'' = []
         \<and> header_get (sentHeader w) ''Transfer-Encoding'' = []
      then w\<lparr>sentHeader := update_header ''Content-Type'' ''text/plain; charset=utf-8''
                              (sentHeader w)\<rparr>
      else w)"

definition Write :: "ResponseWriter \<Rightarrow> json list \<Rightarrow> ResponseWriter" where
  "Write w ds =
     (let w1 = (if wroteHeader w then w else send_header 200 w)
      in if bodyAllowedForStatus (status w1)
         then (let w2 = sniff w1 ds in w2\<lparr>written := written w2 @ ds\<rparr>)
         else w1)"

text \<open>
  What the client receives once the handler has returned: the server sends status 200
  and an empty body for a handler that never wrote.
\<close>

definition response_status :: "ResponseWriter \<Rightarrow> int" where
  "response_status w = (if wroteHeader w then status w else 200)"

definition response_header :: "ResponseWriter \<Rightarrow> string \<Rightarrow> string option" where
  "response_header w k = (if wroteHeader w then map_of (sentHeader w) k else map_of (Header w) k)"

definition response_body :: "ResponseWriter \<Rightarrow> json list" where
  "response_body w = written w"

subsection \<open>strconv\<close>

text \<open>
  \<^verbatim>\<open>strconv.Atoi\<close>: an optional sign and one or more decimal digits, the value within
  the range of \<^verbatim>\<open>int\<close>; anything else is an error, \<open>None\<close>.
\<close>

fun index_of :: "char \<Rightarrow> string \<Rightarrow> nat option" where
  "index_of c [] = None"
| "index_of c (x # xs) = (if c = x then Some 0 else map_option Suc (index_of c xs))"

text \<open>The value of a decimal digit is its place among the ten digits.\<close>

definition digit :: "char \<Rightarrow> nat option" where
  "digit c = index_of c ''0123456789''"

fun digits :: "string \<Rightarrow> nat \<Rightarrow> nat option" where
  "digits [] acc = Some acc"
| "digits (c # cs) acc = (case digit c of None \<Rightarrow> None | Some d \<Rightarrow> digits cs (10 * acc + d))"

definition magnitude :: "string \<Rightarrow> nat option" where
  "magnitude s = (if s = [] then None else digits s 0)"

definition Atoi :: "string \<Rightarrow> int option" where
  "Atoi s =
     (case s of
        [] \<Rightarrow> None
      | c # cs \<Rightarrow>
          if c = CHR ''-'' then
            (case magnitude cs of
               None \<Rightarrow> None
             | Some n \<Rightarrow> if n \<le> Suc int64_max then Some (- int n) else None)
          else
            (case magnitude (if c = CHR ''+'' then cs else s) of
               None \<Rightarrow> None
             | Some n \<Rightarrow> if n \<le> int64_max then Some (int n) else None))"

subsection \<open>gorm over SQLite: the store\<close>

text \<open>
  \<open>rows\<close> is the content of the table \<^verbatim>\<open>tasks\<close> (a statement that returns rows returns
  them in the order of their identifiers); \<open>seq\<close> is the identifier counter that SQLite
  keeps for the table (the column is \<^verbatim>\<open>integer PRIMARY KEY AUTOINCREMENT\<close>); \<open>clock\<close> is
  what \<^verbatim>\<open>time.Now()\<close> returns; \<open>sqlite_cond\<close> is how SQLite reads a text as a condition
  on a row of the table, \<open>None\<close> when it rejects the text; \<open>faults\<close> tells, for each
  statement sent to the database in turn, whether it fails with an I/O error (no entry:
  it does not); \<open>calls\<close> is the log of the operations the handlers invoked, oldest
  first.
\<close>

datatype db_error =
  ErrRecordNotFound | ErrMissingWhereClause | ErrConstraint | ErrIO | ErrSQL | ErrFull | ErrRange

datatype db_call = CallFind | CallFirst string | CallCreate Task | CallDelete Task

record DB =
  rows :: "Task list"
  seq :: nat
  clock :: time
  sqlite_cond :: "string \<Rightarrow> (Task \<Rightarrow> bool) option"
  faults :: "bool list"
  calls :: "db_call list"

definition log_call :: "db_call \<Rightarrow> DB \<Rightarrow> DB" where
  "log_call c db = db\<lparr>calls := calls db @ [c]\<rparr>"

definition next_fault :: "DB \<Rightarrow> bool \<times> DB" where
  "next_fault db = (case faults db of [] \<Rightarrow> (False, db) | f # fs \<Rightarrow> (f, db\<lparr>faults := fs\<rparr>))"

text \<open>\<^verbatim>\<open>DB.Find(&tasks)\<close>: every row.\<close>

definition DB_Find :: "DB \<Rightarrow> (db_error + Task list) \<times> DB" where
  "DB_Find db =
     (case next_fault (log_call CallFind db) of
        (True, db1) \<Rightarrow> (Inl ErrIO, db1)
      | (False, db1) \<Rightarrow> (Inr (sort_key ID (rows db1)), db1))"

text \<open>
  The condition gorm builds from the string it is given after the destination: a string
  that \<^verbatim>\<open>Atoi\<close> accepts is compared with the primary key; the empty string is no
  condition; any other string is put into the statement as it is, as an SQL condition.
\<close>

definition inline_condition :: "DB \<Rightarrow> string \<Rightarrow> (Task \<Rightarrow> bool) option" where
  "inline_condition db s =
     (case Atoi s of
        Some k \<Rightarrow> Some (\<lambda>t. int (ID t) = k)
      | None \<Rightarrow> if s = [] then Some (\<lambda>t. True) else sqlite_cond db s)"

text \<open>
  \<^verbatim>\<open>DB.First(&task, params["id"])\<close>: the first row, in the order of the primary key,
  that satisfies the condition, or \<^verbatim>\<open>ErrRecordNotFound\<close>. On an error \<^verbatim>\<open>task\<close> keeps its
  zero value.
\<close>

definition DB_First :: "DB \<Rightarrow> string \<Rightarrow> (db_error + Task) \<times> DB" where
  "DB_First db s =
     (case next_fault (log_call (CallFirst s) db) of
        (True, db1) \<Rightarrow> (Inl ErrIO, db1)
      | (False, db1) \<Rightarrow>
         (case inline_condition db1 s of
            None \<Rightarrow> (Inl ErrSQL, db1)
          | Some P \<Rightarrow>
             (case find P (sort_key ID (rows db1)) of
                None \<Rightarrow> (Inl ErrRecordNotFound, db1)
              | Some t \<Rightarrow> (Inr t, db1))))"

text \<open>
  \<^verbatim>\<open>DB.Create(&task)\<close>: a zero \<^verbatim>\<open>CreatedAt\<close> or \<^verbatim>\<open>UpdatedAt\<close> becomes the current time, a
  non-zero one is kept. A zero \<^verbatim>\<open>ID\<close> is left to the database, which assigns one more
  than the largest identifier that the table holds or that the counter remembers, and
  fails when that is the largest there is. A non-zero \<^verbatim>\<open>ID\<close> is inserted as given: it
  is refused when it is beyond the database's integers, and it violates the primary
  key when a row already has it.
\<close>

definition fill_times :: "time \<Rightarrow> Task \<Rightarrow> Task" where
  "fill_times now t =
     t\<lparr>CreatedAt := (if CreatedAt t = 0 then now else CreatedAt t),
       UpdatedAt := (if UpdatedAt t = 0 then now else UpdatedAt t)\<rparr>"

definition largest :: "DB \<Rightarrow> nat" where
  "largest db = fold max (map ID (rows db)) (seq db)"

definition DB_Create :: "DB \<Rightarrow> Task \<Rightarrow> (db_error + Task) \<times> DB" where
  "DB_Create db task =
     (case next_fault (log_call (CallCreate task) db) of
        (True, db1) \<Rightarrow> (Inl ErrIO, db1)
      | (False, db1) \<Rightarrow>
         (let t1 = fill_times (clock db1) task in
          if ID t1 = 0 then
            (if int64_max \<le> largest db1 then (Inl ErrFull, db1)
             else
               (let t2 = t1\<lparr>ID := Suc (largest db1)\<rparr>
                in (Inr t2, db1\<lparr>rows := rows db1 @ [t2], seq := Suc (largest db1)\<rparr>)))
          else if int64_max < ID t1 then (Inl ErrRange, db1)
          else if ID t1 \<in> set (map ID (rows db1)) then (Inl ErrConstraint, db1)
          else (Inr t1, db1\<lparr>rows := rows db1 @ [t1], seq := max (seq db1) (ID t1)\<rparr>)))"

text \<open>
  \<^verbatim>\<open>DB.Delete(&task)\<close>: with a zero primary key there is no condition and gorm refuses
  with \<^verbatim>\<open>ErrMissingWhereClause\<close> before any statement is sent; otherwise the rows with
  that key are removed.
\<close>

definition DB_Delete :: "DB \<Rightarrow> Task \<Rightarrow> (db_error + unit) \<times> DB" where
  "DB_Delete db task =
     (let db0 = log_call (CallDelete task) db in
      if ID task = 0 then (Inl ErrMissingWhereClause, db0)
      else if int64_max < ID task then (Inl ErrRange, db0)
      else
        (case next_fault db0 of
           (True, db1) \<Rightarrow> (Inl ErrIO, db1)
         | (False, db1) \<Rightarrow> (Inr (), db1\<lparr>rows := filter (\<lambda>t. ID t \<noteq> ID task) (rows db1)\<rparr>)))"

subsection \<open>The handlers\<close>

text \<open>The status constants of \<^verbatim>\<open>net/http\<close> that the handlers use.\<close>

definition StatusOK :: int where "StatusOK = 200"
definition StatusCreated :: int where "StatusCreated = 201"
definition StatusBadRequest :: int where "StatusBadRequest = 400"
definition StatusNotFound :: int where "StatusNotFound = 404"
definition StatusInternalServerError :: int where "StatusInternalServerError = 500"

text \<open>
  \<^verbatim>\<open>respondWithJSON\<close>: the error of \<^verbatim>\<open>json.Marshal\<close> is dropped, and with it the bytes
  are \<^verbatim>\<open>nil\<close>. \<open>None\<close> is the panic of \<^verbatim>\<open>WriteHeader\<close>.
\<close>

definition respondWithJSON :: "ResponseWriter \<Rightarrow> int \<Rightarrow> payload \<Rightarrow> ResponseWriter option" where
  "respondWithJSON w code p =
     (let response = (case Marshal p of Inl _ \<Rightarrow> [] | Inr j \<Rightarrow> [j]);
          w1 = Header_Set w ''Content-Type'' ''application/json''
      in do { w2 \<leftarrow> WriteHeader w1 code; Some (Write w2 response) })"

definition respondWithError :: "ResponseWriter \<Rightarrow> int \<Rightarrow> string \<Rightarrow> ResponseWriter option" where
  "respondWithError w code message =
     respondWithJSON w code (PResponse \<lparr>RStatus = code, Message = message, Data = Nil\<rparr>)"

text \<open>
  Each handler takes the writer, the store and what it reads of the request (the path
  segment \<^verbatim>\<open>params["id"]\<close>, here \<open>seg\<close>, a string that the route does not restrict, and
  the body),
  and returns the writer and the store as it leaves them; \<open>None\<close> is a panic. The
  messages are the source's, letter by letter.
\<close>

definition GetAllTasks :: "ResponseWriter \<Rightarrow> DB \<Rightarrow> (ResponseWriter \<times> DB) option" where
  "GetAllTasks w db =
     (case DB_Find db of
        (Inl e, db1) \<Rightarrow>
          do { w1 \<leftarrow> respondWithError w StatusInternalServerError ''Error retrieving tasks'';
               Some (w1, db1) }
      | (Inr tasks, db1) \<Rightarrow> Some (w, db1))"

definition GetTask :: "ResponseWriter \<Rightarrow> DB \<Rightarrow> string \<Rightarrow> (ResponseWriter \<times> DB) option" where
  "GetTask w db seg =
     (case DB_First db seg of
        (Inl e, db1) \<Rightarrow>
          do { w1 \<leftarrow> respondWithError w StatusNotFound ''Task not found'';
               Some (w1, db1) }
      | (Inr task, db1) \<Rightarrow>
          do { w1 \<leftarrow> respondWithJSON w StatusOK
                       (PResponse \<lparr>RStatus = StatusOK, Message = ''Task retrieview sucessfully'',
                                   Data = VTask task\<rparr>);
               Some (w1, db1) })"

definition CreateTask :: "ResponseWriter \<Rightarrow> DB \<Rightarrow> body \<Rightarrow> (ResponseWriter \<times> DB) option" where
  "CreateTask w db b =
     (case Decode b zero_Task of
        Inl err \<Rightarrow>
          do { w1 \<leftarrow> respondWithError w StatusBadRequest ''Invalid request payload'';
               Some (w1, db) }
      | Inr task0 \<Rightarrow>
          (case DB_Create db task0 of
             (Inl e, db1) \<Rightarrow>
               do { w1 \<leftarrow> respondWithError w StatusInternalServerError ''Error creating task'';
                    Some (w1, db1) }
           | (Inr task, db1) \<Rightarrow>
               do { w1 \<leftarrow> respondWithJSON w StatusCreated
                            (PResponse \<lparr>RStatus = StatusCreated,
                                        Message = ''Task created successfully'',
                                        Data = VTask task\<rparr>);
                    Some (w1, db1) }))"

text \<open>
  \<^verbatim>\<open>UpdateTask\<close>: after the three assignments the source has the comment
  \<^verbatim>\<open>// Save changes\<close> and then responds; it makes no call to the store.
\<close>

definition UpdateTask :: "ResponseWriter \<Rightarrow> DB \<Rightarrow> string \<Rightarrow> body \<Rightarrow> (ResponseWriter \<times> DB) option" where
  "UpdateTask w db seg b =
     (case DB_First db seg of
        (Inl e, db1) \<Rightarrow>
          do { w1 \<leftarrow> respondWithError w StatusNotFound ''Tas not foun'';
               Some (w1, db1) }
      | (Inr task0, db1) \<Rightarrow>
          (case Decode b zero_Task of
             Inl err \<Rightarrow>
               do { w1 \<leftarrow> respondWithError w StatusBadRequest ''Invalid request payload'';
                    Some (w1, db1) }
           | Inr updatedTask \<Rightarrow>
               (let task = task0\<lparr>Title := Title updatedTask,
                                 Description := Description updatedTask,
                                 Status := Status updatedTask\<rparr>
                in do { w1 \<leftarrow> respondWithJSON w StatusOK
                                 (PResponse \<lparr>RStatus = StatusOK,
                                             Message = ''Task updated successfully'',
                                             Data = VTask task\<rparr>);
                        Some (w1, db1) })))"

text \<open>
  \<^verbatim>\<open>DeleteTask\<close>: the branch for a failed lookup responds and has no \<^verbatim>\<open>return\<close>, so the
  handler goes on to \<^verbatim>\<open>Delete\<close> and to the second response with \<open>task\<close> still at its
  zero value. The result of \<^verbatim>\<open>Delete\<close> is not looked at.
\<close>

definition DeleteTask :: "ResponseWriter \<Rightarrow> DB \<Rightarrow> string \<Rightarrow> (ResponseWriter \<times> DB) option" where
  "DeleteTask w db seg =
     (case DB_First db seg of (result, db1) \<Rightarrow>
        do { w1 \<leftarrow> (case result of
                     Inl e \<Rightarrow> respondWithError w StatusNotFound ''Task not found''
                   | Inr t \<Rightarrow> Some w);
             let task = (case result of Inl e \<Rightarrow> zero_Task | Inr t \<Rightarrow> t);
             let db2 = snd (DB_Delete db1 task);
             w2 \<leftarrow> respondWithJSON w1 StatusOK
                     (PResponse \<lparr>RStatus = StatusOK, Message = ''Task deleted successfully'',
                                 Data = Nil\<rparr>);
             Some (w2, db2) })"

subsection \<open>Requests in sequence, and the stores and bodies of the examples\<close>

text \<open>
  A \<^verbatim>\<open>PUT /api/tasks/{id}\<close> followed by a \<^verbatim>\<open>GET /api/tasks/{id}\<close>, each request with a
  writer of its own: the status and body of the first response, then of the second.
\<close>

definition Update_then_Get ::
  "DB \<Rightarrow> string \<Rightarrow> body \<Rightarrow> ((int \<times> json list) \<times> (int \<times> json list)) option" where
  "Update_then_Get db seg b =
     do { p1 \<leftarrow> UpdateTask NewWriter db seg b;
          p2 \<leftarrow> GetTask NewWriter (snd p1) seg;
          Some ((response_status (fst p1), response_body (fst p1)),
                (response_status (fst p2), response_body (fst p2))) }"

text \<open>
  How SQLite reads the one condition text that the examples send, \<^verbatim>\<open>1=1\<close>: it holds of
  every row. The examples send no other condition; for those this reading has \<open>None\<close>.
\<close>

definition cond_examples :: "string \<Rightarrow> (Task \<Rightarrow> bool) option" where
  "cond_examples s = (if s = ''1=1'' then Some (\<lambda>t. True) else None)"

definition db_empty :: DB where
  "db_empty = \<lparr>rows = [], seq = 0, clock = 20, sqlite_cond = cond_examples,
                faults = [], calls = []\<rparr>"

definition task_one :: Task where
  "task_one = \<lparr>ID = 1, Title = ''Learn Go'', Description = ''Study'', Status = ''pending'',
                CreatedAt = 10, UpdatedAt = 10\<rparr>"

definition db_one :: DB where
  "db_one = \<lparr>rows = [task_one], seq = 1, clock = 20, sqlite_cond = cond_examples,
              faults = [], calls = []\<rparr>"

text \<open>The same store when the next statement sent to the database fails.\<close>

definition db_one_io_error :: DB where
  "db_one_io_error = \<lparr>rows = [task_one], seq = 1, clock = 20, sqlite_cond = cond_examples,
                       faults = [True], calls = []\<rparr>"

text \<open>The store after a second task was created and deleted again.\<close>

definition db_one_seq_two :: DB where
  "db_one_seq_two = \<lparr>rows = [task_one], seq = 2, clock = 20, sqlite_cond = cond_examples,
                      faults = [], calls = []\<rparr>"

text \<open>\<^verbatim>\<open>{"title":"Learn Go","description":"Study","status":"completed"}\<close>\<close>

definition body_completed :: body where
  "body_completed = Object \<lparr>j_id = None, j_title = Some ''Learn Go'',
     j_description = Some ''Study'', j_status = Some ''completed'',
     j_created_at = None, j_updated_at = None\<rparr>"

text \<open>\<^verbatim>\<open>{"id":9,"status":"completed","created_at":T3}\<close>, \<open>T3\<close> the timestamp of instant 3.\<close>

definition body_status_only :: body where
  "body_status_only = Object \<lparr>j_id = Some 9, j_title = None, j_description = None,
     j_status = Some ''completed'', j_created_at = Some 3, j_updated_at = None\<rparr>"

text \<open>
  \<^verbatim>\<open>{"id":7,"title":"x","created_at":T5,"updated_at":T6}\<close>, \<open>T5\<close> and \<open>T6\<close> being the
  timestamps of the instants 5 and 6.
\<close>

definition body_with_id :: body where
  "body_with_id = Object \<lparr>j_id = Some 7, j_title = Some ''x'', j_description = None,
     j_status = None, j_created_at = Some 5, j_updated_at = Some 6\<rparr>"

text \<open>The writer as \<^verbatim>\<open>DeleteTask\<close> has it after its answer to a failed lookup.\<close>

definition writer_404 :: ResponseWriter where
  "writer_404 =
     \<lparr>Header = [(''Content-Type'', ''application/json'')], wroteHeader = True, status = 404,
      sentHeader = [(''Content-Type'', ''application/json'')],
      written = [JObj [(''status'', JNum 404), (''message'', JStr ''Task not found'')]]\<rparr>"

definition payload_deleted :: payload where
  "payload_deleted =
     PResponse \<lparr>RStatus = 200, Message = ''Task deleted successfully'', Data = Nil\<rparr>"

section \<open>Properties\<close>

subsection \<open>The helpers on a writer that has sent nothing\<close>

lemma map_of_update_header: "map_of (update_header k v h) k = Some v"
  by (induction h) auto

lemma respondWithJSON_unwritten:
  assumes "\<not> wroteHeader w" and "200 \<le> code" and "code \<le> 999"
    and "code \<noteq> 204" and "code \<noteq> 304"
  shows "respondWithJSON w code p =
    Some (w\<lparr>Header := update_header ''Content-Type'' ''application/json'' (Header w),
            wroteHeader := True, status := code,
            sentHeader := update_header ''Content-Type'' ''application/json'' (Header w),
            written := written w @ (case Marshal p of Inl e \<Rightarrow> [] | Inr j \<Rightarrow> [j])\<rparr>)"
proof -
  have a: "bodyAllowedForStatus code"
    using assms by (simp add: bodyAllowedForStatus_def)
  have s: "suppressedHeaders code = []"
    using assms a by (simp add: suppressedHeaders_def)
  show ?thesis
    using assms a
    by (simp add: respondWithJSON_def Header_Set_def WriteHeader_def Write_def send_header_def
        sniff_def s map_of_update_header)
qed

lemma respondWithJSON_NewWriter:
  assumes "200 \<le> code" and "code \<le> 999" and "code \<noteq> 204" and "code \<noteq> 304"
  shows "respondWithJSON NewWriter code p =
    Some \<lparr>Header = [(''Content-Type'', ''application/json'')], wroteHeader = True,
          status = code, sentHeader = [(''Content-Type'', ''application/json'')],
          written = (case Marshal p of Inl e \<Rightarrow> [] | Inr j \<Rightarrow> [j])\<rparr>"
proof -
  have "\<not> wroteHeader NewWriter" by (simp add: NewWriter_def)
  from respondWithJSON_unwritten [OF this assms] show ?thesis
    by (simp add: NewWriter_def)
qed

lemma respondWithError_NewWriter:
  assumes "200 \<le> code" and "code \<le> 999" and "code \<noteq> 204" and "code \<noteq> 304"
  shows "respondWithError NewWriter code m =
    Some \<lparr>Header = [(''Content-Type'', ''application/json'')], wroteHeader = True,
          status = code, sentHeader = [(''Content-Type'', ''application/json'')],
          written = [JObj [(''status'', JNum code), (''message'', JStr m)]]\<rparr>"
  using assms by (simp add: respondWithError_def respondWithJSON_NewWriter)

subsection \<open>The lookup\<close>

lemma DB_First_rows: "rows (snd (DB_First db s)) = rows db"
  by (simp add: DB_First_def next_fault_def log_call_def
      split: list.splits option.splits bool.splits)


subsection \<open>Update\<close>

lemma UpdateTask_rows:
  assumes "UpdateTask w db s b = Some (w', db')"
  shows "rows db' = rows db"
proof (cases "DB_First db s")
  case (Pair result db1)
  have r: "rows db1 = rows db"
    using DB_First_rows [of db s] Pair by simp
  show ?thesis
    using assms r
    by (auto simp: UpdateTask_def Pair Let_def split: sum.splits bind_splits)
qed


lemma DB_First_db_one_1:
  "DB_First db_one ''1'' = (Inr task_one, db_one\<lparr>calls := [CallFirst ''1'']\<rparr>)"
  by (simp add: DB_First_def inline_condition_def Atoi_def magnitude_def digit_def
      int64_max_def next_fault_def log_call_def db_one_def task_one_def)

text \<open>
  Claim C1. For an existing task, a \<^verbatim>\<open>PUT /api/tasks/{id}\<close> with body P2 persists the new
  title, description and status, so that a following \<^verbatim>\<open>GET /api/tasks/{id}\<close> returns
  them. The code at the store holding the task 1 with status \<^verbatim>\<open>pending\<close> and the body
  with status \<^verbatim>\<open>completed\<close>: the response to the update is 200 and shows
  \<^verbatim>\<open>completed\<close>, the table is as it was, and the following fetch returns \<^verbatim>\<open>pending\<close>.
\<close>

theorem UpdateTask_not_persisted:
  "Update_then_Get db_one ''1'' body_completed =
     Some ((200, [JObj [(''status'', JNum 200), (''message'', JStr ''Task updated successfully''),
                        (''data'', Marshal_Task (task_one\<lparr>Status := ''completed''\<rparr>))]]),
           (200, [JObj [(''status'', JNum 200), (''message'', JStr ''Task retrieview sucessfully''),
                        (''data'', Marshal_Task task_one)]]))
   \<and> map_option (rows \<circ> snd) (UpdateTask NewWriter db_one ''1'' body_completed) = Some (rows db_one)
   \<and> map_option (calls \<circ> snd) (UpdateTask NewWriter db_one ''1'' body_completed) = Some [CallFirst ''1'']"
proof -
  have u: "UpdateTask NewWriter db_one ''1'' body_completed =
      Some (\<lparr>Header = [(''Content-Type'', ''application/json'')], wroteHeader = True,
              status = 200, sentHeader = [(''Content-Type'', ''application/json'')],
              written = [JObj [(''status'', JNum 200),
                               (''message'', JStr ''Task updated successfully''),
                               (''data'', Marshal_Task (task_one\<lparr>Status := ''completed''\<rparr>))]]\<rparr>,
            db_one\<lparr>calls := [CallFirst ''1'']\<rparr>)"
    by (simp add: UpdateTask_def DB_First_db_one_1 body_completed_def set_fields_def
        zero_Task_def StatusOK_def respondWithJSON_NewWriter task_one_def Marshal_Task_def)
  have f: "DB_First (db_one\<lparr>calls := [CallFirst ''1'']\<rparr>) ''1'' =
      (Inr task_one, db_one\<lparr>calls := [CallFirst ''1'', CallFirst ''1'']\<rparr>)"
    by (simp add: DB_First_def inline_condition_def Atoi_def magnitude_def digit_def
        int64_max_def next_fault_def log_call_def db_one_def task_one_def)
  have g: "GetTask NewWriter (db_one\<lparr>calls := [CallFirst ''1'']\<rparr>) ''1'' =
      Some (\<lparr>Header = [(''Content-Type'', ''application/json'')], wroteHeader = True,
              status = 200, sentHeader = [(''Content-Type'', ''application/json'')],
              written = [JObj [(''status'', JNum 200),
                               (''message'', JStr ''Task retrieview sucessfully''),
                               (''data'', Marshal_Task task_one)]]\<rparr>,
            db_one\<lparr>calls := [CallFirst ''1'', CallFirst ''1'']\<rparr>)"
    by (simp add: GetTask_def f StatusOK_def respondWithJSON_NewWriter)
  show ?thesis
    by (simp add: Update_then_Get_def u g response_status_def response_body_def)
qed

text \<open>
  Claim C5. For an update of an existing task whose body parses, the title, description
  and status of the body overwrite those of the existing record, a member absent from
  the body giving the empty value, while identifier and creation time stay those of
  the existing record. The code at the store holding task 1 and the body
  \<^verbatim>\<open>{"id":9,"status":"completed","created_at":T3}\<close>: the task in the response has the
  body's status, an empty title and description, and the identifier and times of the
  record, but the record in the table is not overwritten; it still has its title, its
  description and the status \<^verbatim>\<open>pending\<close>. (The same missing save as in C1.)
\<close>

theorem UpdateTask_record_not_overwritten:
  "map_option (response_body \<circ> fst) (UpdateTask NewWriter db_one ''1'' body_status_only) =
     Some [JObj [(''status'', JNum 200), (''message'', JStr ''Task updated successfully''),
                 (''data'', Marshal_Task
                    \<lparr>ID = 1, Title = [], Description = [], Status = ''completed'',
                     CreatedAt = 10, UpdatedAt = 10\<rparr>)]]
   \<and> map_option (rows \<circ> snd) (UpdateTask NewWriter db_one ''1'' body_status_only) =
       Some [\<lparr>ID = 1, Title = ''Learn Go'', Description = ''Study'', Status = ''pending'',
              CreatedAt = 10, UpdatedAt = 10\<rparr>]
   \<and> rows db_one =
       [\<lparr>ID = 1, Title = ''Learn Go'', Description = ''Study'', Status = ''pending'',
         CreatedAt = 10, UpdatedAt = 10\<rparr>]"
proof -
  have u: "UpdateTask NewWriter db_one ''1'' body_status_only =
      Some (\<lparr>Header = [(''Content-Type'', ''application/json'')], wroteHeader = True,
              status = 200, sentHeader = [(''Content-Type'', ''application/json'')],
              written = [JObj [(''status'', JNum 200),
                               (''message'', JStr ''Task updated successfully''),
                               (''data'', Marshal_Task
                                  \<lparr>ID = 1, Title = [], Description = [],
                                   Status = ''completed'', CreatedAt = 10, UpdatedAt = 10\<rparr>)]]\<rparr>,
            db_one\<lparr>calls := [CallFirst ''1'']\<rparr>)"
    by (simp add: UpdateTask_def DB_First_db_one_1 body_status_only_def set_fields_def
        zero_Task_def uint_max_def StatusOK_def respondWithJSON_NewWriter task_one_def
        Marshal_Task_def)
  have r: "rows db_one =
       [\<lparr>ID = 1, Title = ''Learn Go'', Description = ''Study'', Status = ''pending'',
         CreatedAt = 10, UpdatedAt = 10\<rparr>]"
    by (simp add: db_one_def task_one_def)
  show ?thesis
    by (simp add: u response_body_def r)
qed




subsection \<open>List\<close>

lemma GetAllTasks_success:
  assumes "DB_Find db = (Inr tasks, db1)"
  shows "GetAllTasks w db = Some (w, db1)"
  using assms by (simp add: GetAllTasks_def)

text \<open>
  Claim C2. A \<^verbatim>\<open>GET /api/tasks\<close> whose read succeeds is answered with status 200 and an
  envelope whose data is the array of all tasks. The code at the store holding task 1:
  the read succeeds and the handler returns with the writer untouched, so that the
  response is the server's default, status 200 with a body of no bytes: no envelope, no
  array.
\<close>

theorem GetAllTasks_writes_nothing:
  "fst (DB_Find db_one) = Inr [task_one]
   \<and> map_option fst (GetAllTasks NewWriter db_one) = Some NewWriter
   \<and> map_option (response_body \<circ> fst) (GetAllTasks NewWriter db_one) = Some []
   \<and> map_option (response_header \<circ> fst) (GetAllTasks NewWriter db_one) = Some (\<lambda>k. None)"
proof -
  have f: "DB_Find db_one = (Inr [task_one], db_one\<lparr>calls := [CallFind]\<rparr>)"
    by (simp add: DB_Find_def next_fault_def log_call_def db_one_def)
  have g: "GetAllTasks NewWriter db_one = Some (NewWriter, db_one\<lparr>calls := [CallFind]\<rparr>)"
    using GetAllTasks_success [OF f] .
  have h: "response_header NewWriter = (\<lambda>k. None)"
    by (rule ext) (simp add: response_header_def NewWriter_def)
  show ?thesis
    using f g h by (simp add: response_body_def NewWriter_def)
qed

subsection \<open>Get\<close>

text \<open>
  Claim C9. The get handler answers 200 or 404 and nothing else: every error of the
  lookup, an I/O failure as much as a missing record, gives 404, and no request and no
  state of the store gives 500.
\<close>

theorem GetTask_200_or_404:
  "\<exists>w' db'. GetTask NewWriter db seg = Some (w', db')
      \<and> (response_status w' = 200 \<or> response_status w' = 404)
      \<and> response_status w' \<noteq> 500
      \<and> (\<forall>e. fst (DB_First db seg) = Inl e \<longrightarrow> response_status w' = 404)"
proof (cases "DB_First db seg")
  case (Pair result db1)
  then show ?thesis
    by (cases result)
       (simp_all add: GetTask_def StatusNotFound_def StatusOK_def respondWithError_NewWriter
          respondWithJSON_NewWriter response_status_def)
qed

text \<open>Task 1 is in the table and the database fails on the query: the answer is 404.\<close>

theorem GetTask_200_or_404_witness:
  "fst (DB_First db_one_io_error ''1'') = Inl ErrIO
   \<and> map_option (response_status \<circ> fst) (GetTask NewWriter db_one_io_error ''1'') = Some 404
   \<and> map_option (response_status \<circ> fst) (GetTask NewWriter db_one ''1'') = Some 200"
proof -
  have h: "fst (DB_First db_one_io_error ''1'') = Inl ErrIO"
    by (simp add: DB_First_def next_fault_def log_call_def db_one_io_error_def)
  have "map_option (response_status \<circ> fst) (GetTask NewWriter db_one_io_error ''1'') = Some 404"
    using h GetTask_200_or_404 [of db_one_io_error "''1''"] by auto
  moreover have "map_option (response_status \<circ> fst) (GetTask NewWriter db_one ''1'') = Some 200"
    by (simp add: GetTask_def DB_First_db_one_1 StatusOK_def respondWithJSON_NewWriter
        response_status_def)
  ultimately show ?thesis using h by simp
qed

subsection \<open>Create\<close>

text \<open>
  Claim C6. A \<^verbatim>\<open>POST /api/tasks\<close> whose body does not parse as a task is answered 400
  and creates nothing: the store the handler leaves is the store it found, with no
  operation invoked on it, so the table and what a listing reads from it are the same.
\<close>

theorem CreateTask_malformed_400:
  assumes "Decode b zero_Task = Inl err"
  shows "\<exists>w'. CreateTask NewWriter db b = Some (w', db)
           \<and> response_status w' = 400
           \<and> response_body w' =
               [JObj [(''status'', JNum 400), (''message'', JStr ''Invalid request payload'')]]"
  using assms
  by (simp add: CreateTask_def StatusBadRequest_def respondWithError_NewWriter
      response_status_def response_body_def)

theorem CreateTask_malformed_400_witness:
  "Decode Malformed zero_Task = Inl SyntaxError
   \<and> map_option snd (CreateTask NewWriter db_one Malformed) = Some db_one
   \<and> map_option (response_status \<circ> fst) (CreateTask NewWriter db_one Malformed) = Some 400"
proof -
  have h: "Decode Malformed zero_Task = Inl SyntaxError" by simp
  show ?thesis
    using h CreateTask_malformed_400 [OF h, of db_one] by auto
qed

lemma fold_max_ge: "(a::nat) \<le> fold max xs a"
proof (induction xs arbitrary: a)
  case Nil
  show ?case by simp
next
  case (Cons x xs)
  have "a \<le> max x a" by simp
  also have "max x a \<le> fold max xs (max x a)" by (rule Cons.IH)
  finally show ?case by simp
qed

lemma fold_max_ge_elem: "x \<in> set xs \<Longrightarrow> (x::nat) \<le> fold max xs a"
proof (induction xs arbitrary: a)
  case Nil
  then show ?case by simp
next
  case (Cons y ys)
  show ?case
  proof (cases "x = y")
    case True
    have "y \<le> max y a" by simp
    also have "max y a \<le> fold max ys (max y a)" by (rule fold_max_ge)
    finally show ?thesis using True by simp
  next
    case False
    with Cons.prems have "x \<in> set ys" by simp
    from Cons.IH [OF this] show ?thesis by simp
  qed
qed

lemma seq_le_largest: "seq db \<le> largest db"
  by (simp add: largest_def fold_max_ge)

lemma ID_le_largest: "r \<in> set (rows db) \<Longrightarrow> ID r \<le> largest db"
  by (simp add: largest_def fold_max_ge_elem)

lemma next_fault_log_call:
  "\<exists>db0. next_fault (log_call c db) = (fst (next_fault db), db0) \<and> rows db0 = rows db
     \<and> seq db0 = seq db \<and> clock db0 = clock db \<and> calls db0 = calls db @ [c]"
  by (cases "faults db") (simp_all add: next_fault_def log_call_def)

lemma DB_Create_accepts:
  assumes "\<not> fst (next_fault db)"
    and "if ID task = 0 then largest db < int64_max
         else ID task \<le> int64_max \<and> ID task \<notin> set (map ID (rows db))"
  shows "\<exists>t db'. DB_Create db task = (Inr t, db')
           \<and> rows db' = rows db @ [t]
           \<and> calls db' = calls db @ [CallCreate task]
           \<and> seq db' = max (seq db) (ID t)
           \<and> ID t = (if ID task = 0 then Suc (largest db) else ID task)
           \<and> CreatedAt t = (if CreatedAt task = 0 then clock db else CreatedAt task)
           \<and> UpdatedAt t = (if UpdatedAt task = 0 then clock db else UpdatedAt task)
           \<and> Title t = Title task \<and> Description t = Description task
           \<and> Status t = Status task"
proof -
  obtain db0 where db0: "next_fault (log_call (CallCreate task) db) = (False, db0)"
    and frame: "rows db0 = rows db" "seq db0 = seq db" "clock db0 = clock db"
      "calls db0 = calls db @ [CallCreate task]"
    using next_fault_log_call [of "CallCreate task" db] assms(1) by auto
  have l: "largest db0 = largest db"
    by (simp add: largest_def frame)
  have m: "max (seq db) (Suc (largest db)) = Suc (largest db)"
    using seq_le_largest [of db] by simp
  show ?thesis
  proof (cases "ID task = 0")
    case True
    with assms(2) have "\<not> int64_max \<le> largest db" by simp
    then show ?thesis
      using True frame
      by (simp add: DB_Create_def db0 fill_times_def Let_def l m)
  next
    case False
    with assms(2) have "\<not> int64_max < ID task" "ID task \<notin> set (map ID (rows db))"
      by simp_all
    then show ?thesis
      using False frame
      by (simp add: DB_Create_def db0 fill_times_def Let_def)
  qed
qed

lemma DB_Create_refuses:
  assumes "\<not> (\<not> fst (next_fault db)
      \<and> (if ID task = 0 then largest db < int64_max
          else ID task \<le> int64_max \<and> ID task \<notin> set (map ID (rows db))))"
  shows "\<exists>e db'. DB_Create db task = (Inl e, db')
           \<and> rows db' = rows db \<and> seq db' = seq db
           \<and> calls db' = calls db @ [CallCreate task]"
proof -
  obtain db0 where db0: "next_fault (log_call (CallCreate task) db) = (fst (next_fault db), db0)"
    and frame: "rows db0 = rows db" "seq db0 = seq db" "clock db0 = clock db"
      "calls db0 = calls db @ [CallCreate task]"
    using next_fault_log_call [of "CallCreate task" db] by auto
  have l: "largest db0 = largest db"
    by (simp add: largest_def frame)
  show ?thesis
  proof (cases "fst (next_fault db)")
    case True
    then show ?thesis
      using frame by (simp add: DB_Create_def db0)
  next
    case False
    with assms have "if ID task = 0 then int64_max \<le> largest db
        else int64_max < ID task \<or> ID task \<in> set (map ID (rows db))"
      by (auto split: if_splits)
    then show ?thesis
      using False frame
      by (auto simp add: DB_Create_def db0 fill_times_def Let_def l split: if_splits)
  qed
qed

lemma CreateTask_decoded:
  assumes "Decode b zero_Task = Inr task"
  shows "CreateTask w db b =
    (case DB_Create db task of
       (Inl e, db1) \<Rightarrow>
         do { w1 \<leftarrow> respondWithError w StatusInternalServerError ''Error creating task'';
              Some (w1, db1) }
     | (Inr t, db1) \<Rightarrow>
         do { w1 \<leftarrow> respondWithJSON w StatusCreated
                      (PResponse \<lparr>RStatus = StatusCreated,
                                  Message = ''Task created successfully'', Data = VTask t\<rparr>);
              Some (w1, db1) })"
  using assms by (simp add: CreateTask_def)

text \<open>
  Claim C4, as stated: identifier and timestamps in the body of a create request are
  ignored. The code at the empty store, whose next identifier is 1 and whose clock
  shows 20, with the body \<^verbatim>\<open>{"id":7,"title":"x","created_at":T5,"updated_at":T6}\<close>:
  the record created has identifier 7, creation time 5 and modification time 6.
\<close>

theorem CreateTask_body_id_and_times_kept:
  "map_option (rows \<circ> snd) (CreateTask NewWriter db_empty body_with_id) =
     Some [\<lparr>ID = 7, Title = ''x'', Description = [], Status = [], CreatedAt = 5, UpdatedAt = 6\<rparr>]
   \<and> map_option (response_status \<circ> fst) (CreateTask NewWriter db_empty body_with_id) = Some 201
   \<and> Suc (seq db_empty) = 1 \<and> clock db_empty = 20"
  by (simp add: CreateTask_def DB_Create_def next_fault_def log_call_def fill_times_def
      set_fields_def zero_Task_def db_empty_def body_with_id_def StatusCreated_def
      uint_max_def int64_max_def largest_def
      respondWithJSON_NewWriter response_status_def Let_def)

text \<open>
  Claim C4, amended. For a create request whose body parses, the handler hands the
  decoded body to the store as it is, identifier and timestamps included (members the
  body does not have are zero). The store accepts it when the database does not fail
  and either the identifier is zero and the identifiers are not used up, or it is
  non-zero, within the database's integers and the identifier of no row. If the store
  accepts, the answer is 201 with the created record, which is added to the table: its
  identifier is the body's when that is not zero, and otherwise assigned by the store,
  one more than the largest identifier that the table holds or that its counter
  remembers, so larger than both; the counter moves up to the new identifier, so
  identifiers assigned by the store only ever increase; the creation and modification
  times are the body's when they are not the zero time, and otherwise the store's
  current time; title, description and status are the body's. If the store refuses,
  the answer is 500 and table and counter are unchanged.
\<close>

theorem CreateTask_stores_decoded_body:
  assumes "Decode (Object j) zero_Task = Inr task"
  shows "\<exists>w' db'. CreateTask NewWriter db (Object j) = Some (w', db')
     \<and> ID task = (case j_id j of None \<Rightarrow> 0 | Some k \<Rightarrow> k)
     \<and> CreatedAt task = (case j_created_at j of None \<Rightarrow> 0 | Some c \<Rightarrow> c)
     \<and> UpdatedAt task = (case j_updated_at j of None \<Rightarrow> 0 | Some c \<Rightarrow> c)
     \<and> Title task = (case j_title j of None \<Rightarrow> [] | Some v \<Rightarrow> v)
     \<and> Description task = (case j_description j of None \<Rightarrow> [] | Some v \<Rightarrow> v)
     \<and> Status task = (case j_status j of None \<Rightarrow> [] | Some v \<Rightarrow> v)
     \<and> calls db' = calls db @ [CallCreate task]
     \<and> (if \<not> fst (next_fault db)
            \<and> (if ID task = 0 then largest db < int64_max
                else ID task \<le> int64_max \<and> ID task \<notin> set (map ID (rows db)))
         then \<exists>t. response_status w' = 201
                \<and> response_body w' =
                    [JObj [(''status'', JNum 201), (''message'', JStr ''Task created successfully''),
                           (''data'', Marshal_Task t)]]
                \<and> rows db' = rows db @ [t]
                \<and> seq db' = max (seq db) (ID t)
                \<and> ID t = (if ID task = 0 then Suc (largest db) else ID task)
                \<and> (if ID task = 0 then seq db < ID t \<and> list_all (\<lambda>r. ID r < ID t) (rows db)
                    else True)
                \<and> CreatedAt t = (if CreatedAt task = 0 then clock db else CreatedAt task)
                \<and> UpdatedAt t = (if UpdatedAt task = 0 then clock db else UpdatedAt task)
                \<and> Title t = Title task \<and> Description t = Description task
                \<and> Status t = Status task
         else response_status w' = 500 \<and> rows db' = rows db \<and> seq db' = seq db)"
proof -
  have d: "Decode (Object j) zero_Task = Inr task" by (rule assms)
  have task: "task = set_fields j zero_Task"
    using assms by (simp split: option.splits if_splits)
  have fields:
    "ID task = (case j_id j of None \<Rightarrow> 0 | Some k \<Rightarrow> k)"
    "CreatedAt task = (case j_created_at j of None \<Rightarrow> 0 | Some c \<Rightarrow> c)"
    "UpdatedAt task = (case j_updated_at j of None \<Rightarrow> 0 | Some c \<Rightarrow> c)"
    "Title task = (case j_title j of None \<Rightarrow> [] | Some v \<Rightarrow> v)"
    "Description task = (case j_description j of None \<Rightarrow> [] | Some v \<Rightarrow> v)"
    "Status task = (case j_status j of None \<Rightarrow> [] | Some v \<Rightarrow> v)"
    by (simp_all add: task set_fields_def zero_Task_def split: option.splits)
  let ?ok = "\<not> fst (next_fault db)
      \<and> (if ID task = 0 then largest db < int64_max
          else ID task \<le> int64_max \<and> ID task \<notin> set (map ID (rows db)))"
  show ?thesis
  proof (cases ?ok)
    case True
    from True have a1: "\<not> fst (next_fault db)"
      by (rule conjunct1)
    from True have a2: "if ID task = 0 then largest db < int64_max
               else ID task \<le> int64_max \<and> ID task \<notin> set (map ID (rows db))"
      by (rule conjunct2)
    obtain t db' where c: "DB_Create db task = (Inr t, db')"
      and r: "rows db' = rows db @ [t]" "calls db' = calls db @ [CallCreate task]"
        "seq db' = max (seq db) (ID t)"
      and f: "ID t = (if ID task = 0 then Suc (largest db) else ID task)"
        "CreatedAt t = (if CreatedAt task = 0 then clock db else CreatedAt task)"
        "UpdatedAt t = (if UpdatedAt task = 0 then clock db else UpdatedAt task)"
        "Title t = Title task" "Description t = Description task" "Status t = Status task"
      using DB_Create_accepts [OF a1 a2] by blast
    have mono: "if ID task = 0 then seq db < ID t \<and> list_all (\<lambda>r. ID r < ID t) (rows db)
                else True"
    proof (cases "ID task = 0")
      case True
      have "seq db < Suc (largest db)"
        using seq_le_largest [of db] by simp
      moreover have "list_all (\<lambda>r. ID r < Suc (largest db)) (rows db)"
        using ID_le_largest [of _ db] by (auto simp: list_all_iff less_Suc_eq_le)
      ultimately show ?thesis using True f(1) by simp
    next
      case False
      then show ?thesis by simp
    qed
    let ?W = "\<lparr>Header = [(''Content-Type'', ''application/json'')], wroteHeader = True,
               status = 201, sentHeader = [(''Content-Type'', ''application/json'')],
               written = [JObj [(''status'', JNum 201),
                                (''message'', JStr ''Task created successfully''),
                                (''data'', Marshal_Task t)]]\<rparr>"
    have w: "CreateTask NewWriter db (Object j) = Some (?W, db')"
      by (simp add: CreateTask_decoded [OF d] c StatusCreated_def respondWithJSON_NewWriter)
    have s1: "response_status ?W = 201"
      by (simp add: response_status_def)
    have s2: "response_body ?W =
                [JObj [(''status'', JNum 201), (''message'', JStr ''Task created successfully''),
                       (''data'', Marshal_Task t)]]"
      by (simp add: response_body_def)
    show ?thesis
      using fields r f mono s1 s2 unfolding w if_P [OF True] by blast
  next
    case False
    obtain e db' where c: "DB_Create db task = (Inl e, db')"
      and r: "rows db' = rows db" "seq db' = seq db" "calls db' = calls db @ [CallCreate task]"
      using DB_Create_refuses [OF False] by blast
    let ?W = "\<lparr>Header = [(''Content-Type'', ''application/json'')], wroteHeader = True,
               status = 500, sentHeader = [(''Content-Type'', ''application/json'')],
               written = [JObj [(''status'', JNum 500),
                                (''message'', JStr ''Error creating task'')]]\<rparr>"
    have w: "CreateTask NewWriter db (Object j) = Some (?W, db')"
      by (simp add: CreateTask_decoded [OF d] c StatusInternalServerError_def
          respondWithError_NewWriter)
    have s1: "response_status ?W = 500"
      by (simp add: response_status_def)
    show ?thesis
      using fields r s1 unfolding w if_not_P [OF False] by blast
  qed
qed

text \<open>
  On the store that holds task 1 and whose counter remembers the deleted task 2, the
  body without identifier and timestamps gives the row 3 with both times 20, and the
  counter 3. On the store holding task 1, the body with identifier 7 and the times 5
  and 6 gives the row 7 with those times, and the counter 7.
\<close>

theorem CreateTask_stores_decoded_body_witness:
  "Decode body_completed zero_Task =
     Inr \<lparr>ID = 0, Title = ''Learn Go'', Description = ''Study'', Status = ''completed'',
          CreatedAt = 0, UpdatedAt = 0\<rparr>
   \<and> map_option (rows \<circ> snd) (CreateTask NewWriter db_one_seq_two body_completed) =
       Some [task_one,
             \<lparr>ID = 3, Title = ''Learn Go'', Description = ''Study'', Status = ''completed'',
              CreatedAt = 20, UpdatedAt = 20\<rparr>]
   \<and> map_option (seq \<circ> snd) (CreateTask NewWriter db_one_seq_two body_completed) = Some 3
   \<and> Decode body_with_id zero_Task =
     Inr \<lparr>ID = 7, Title = ''x'', Description = [], Status = [], CreatedAt = 5, UpdatedAt = 6\<rparr>
   \<and> map_option (rows \<circ> snd) (CreateTask NewWriter db_one body_with_id) =
       Some [task_one,
             \<lparr>ID = 7, Title = ''x'', Description = [], Status = [],
              CreatedAt = 5, UpdatedAt = 6\<rparr>]
   \<and> map_option (seq \<circ> snd) (CreateTask NewWriter db_one body_with_id) = Some 7"
proof -
  let ?j1 = "\<lparr>j_id = None, j_title = Some ''Learn Go'', j_description = Some ''Study'',
              j_status = Some ''completed'', j_created_at = None, j_updated_at = None\<rparr>"
  let ?t1 = "\<lparr>ID = 0, Title = ''Learn Go'', Description = ''Study'', Status = ''completed'',
              CreatedAt = 0, UpdatedAt = 0\<rparr>"
  let ?j2 = "\<lparr>j_id = Some 7, j_title = Some ''x'', j_description = None,
              j_status = None, j_created_at = Some 5, j_updated_at = Some 6\<rparr>"
  let ?t2 = "\<lparr>ID = 7, Title = ''x'', Description = [], Status = [], CreatedAt = 5,
              UpdatedAt = 6\<rparr>"
  have d1: "Decode (Object ?j1) zero_Task = Inr ?t1"
    by (simp add: set_fields_def zero_Task_def)
  have d2: "Decode (Object ?j2) zero_Task = Inr ?t2"
    by (simp add: set_fields_def zero_Task_def uint_max_def)
  have s1: "rows db_one_seq_two = [task_one]" "seq db_one_seq_two = 2"
    "clock db_one_seq_two = 20" "largest db_one_seq_two = 2"
    "\<not> fst (next_fault db_one_seq_two)"
    by (simp_all add: db_one_seq_two_def largest_def task_one_def next_fault_def)
  have s2: "rows db_one = [task_one]" "seq db_one = 1" "clock db_one = 20"
    "largest db_one = 1" "\<not> fst (next_fault db_one)" "ID task_one = 1"
    by (simp_all add: db_one_def largest_def task_one_def next_fault_def)
  obtain w1 e1 t1 where r1:
    "CreateTask NewWriter db_one_seq_two (Object ?j1) = Some (w1, e1)"
    "rows e1 = [task_one, t1]" "seq e1 = max 2 (ID t1)" "ID t1 = 3"
    "CreatedAt t1 = 20" "UpdatedAt t1 = 20"
    "Title t1 = ''Learn Go''" "Description t1 = ''Study''" "Status t1 = ''completed''"
    using CreateTask_stores_decoded_body [OF d1, of db_one_seq_two]
    by (auto simp: s1 int64_max_def)
  have q1: "t1 = \<lparr>ID = 3, Title = ''Learn Go'', Description = ''Study'', Status = ''completed'',
              CreatedAt = 20, UpdatedAt = 20\<rparr>"
    using r1(4-9) by (cases t1) simp
  obtain w2 e2 t2 where r2:
    "CreateTask NewWriter db_one (Object ?j2) = Some (w2, e2)"
    "rows e2 = [task_one, t2]" "seq e2 = max 1 (ID t2)" "ID t2 = 7"
    "CreatedAt t2 = 5" "UpdatedAt t2 = 6"
    "Title t2 = ''x''" "Description t2 = []" "Status t2 = []"
    using CreateTask_stores_decoded_body [OF d2, of db_one]
    by (auto simp: s2 int64_max_def)
  have q2: "t2 = ?t2"
    using r2(4-9) by (cases t2) simp
  show ?thesis
    using d1 d2 r1(1-4) r2(1-4) q1 q2
    by (simp add: body_completed_def body_with_id_def)
qed

subsection \<open>Delete\<close>

lemma respondWithError_404:
  "respondWithError NewWriter StatusNotFound ''Task not found'' = Some writer_404"
  by (simp add: StatusNotFound_def respondWithError_NewWriter writer_404_def)

lemma respondWithJSON_writer_404:
  "respondWithJSON writer_404 code p =
     Some (writer_404\<lparr>written :=
        [JObj [(''status'', JNum 404), (''message'', JStr ''Task not found'')]]
        @ (case Marshal p of Inl e \<Rightarrow> [] | Inr j \<Rightarrow> [j])\<rparr>)"
  by (simp add: respondWithJSON_def Header_Set_def WriteHeader_def Write_def sniff_def
      bodyAllowedForStatus_def writer_404_def)

text \<open>
  Claim C3. A \<^verbatim>\<open>DELETE /api/tasks/{id}\<close> whose identifier matches no record is
  answered 404 and performs no delete operation. The code at the store holding task 1
  and the identifier 5: the status sent is 404 and the table is as it was, but after
  the lookup the handler invokes \<^verbatim>\<open>Delete\<close> on the zero task, and the body carries a
  second envelope, which says 200 and that the task was deleted.
\<close>

theorem DeleteTask_missing_id_goes_on:
  "5 \<notin> set (map ID (rows db_one))
   \<and> map_option (calls \<circ> snd) (DeleteTask NewWriter db_one ''5'') =
       Some [CallFirst ''5'', CallDelete zero_Task]
   \<and> map_option (rows \<circ> snd) (DeleteTask NewWriter db_one ''5'') = Some (rows db_one)
   \<and> map_option (response_status \<circ> fst) (DeleteTask NewWriter db_one ''5'') = Some 404
   \<and> map_option (response_body \<circ> fst) (DeleteTask NewWriter db_one ''5'') =
       Some [JObj [(''status'', JNum 404), (''message'', JStr ''Task not found'')],
             JObj [(''status'', JNum 200), (''message'', JStr ''Task deleted successfully'')]]"
proof -
  have f: "DB_First db_one ''5'' =
      (Inl ErrRecordNotFound, db_one\<lparr>calls := [CallFirst ''5'']\<rparr>)"
    by (simp add: DB_First_def inline_condition_def Atoi_def magnitude_def digit_def
        int64_max_def next_fault_def log_call_def db_one_def task_one_def)
  have d: "DB_Delete (db_one\<lparr>calls := [CallFirst ''5'']\<rparr>) zero_Task =
      (Inl ErrMissingWhereClause, db_one\<lparr>calls := [CallFirst ''5'', CallDelete zero_Task]\<rparr>)"
    by (simp add: DB_Delete_def log_call_def zero_Task_def db_one_def)
  have u: "DeleteTask NewWriter db_one ''5'' =
      Some (writer_404\<lparr>written :=
              [JObj [(''status'', JNum 404), (''message'', JStr ''Task not found'')],
               JObj [(''status'', JNum 200), (''message'', JStr ''Task deleted successfully'')]]\<rparr>,
            db_one\<lparr>calls := [CallFirst ''5'', CallDelete zero_Task]\<rparr>)"
    by (simp add: DeleteTask_def f d respondWithError_404 respondWithJSON_writer_404
        StatusOK_def)
  have n: "5 \<notin> set (map ID (rows db_one))"
    by (simp add: db_one_def task_one_def)
  show ?thesis
    using n by (simp add: u response_status_def response_body_def writer_404_def)
qed

subsection \<open>The envelope\<close>

text \<open>
  Claim C7. Every response the handlers write is one JSON object whose status member
  equals the HTTP status of the response. The code at the empty store and
  \<^verbatim>\<open>DELETE /api/tasks/1\<close>: the HTTP status is 404 and the body is two objects, the second
  with the status member 200. (The same missing \<^verbatim>\<open>return\<close> as in C3.)
\<close>

theorem DeleteTask_missing_id_two_envelopes:
  "map_option (response_status \<circ> fst) (DeleteTask NewWriter db_empty ''1'') = Some 404
   \<and> map_option (response_body \<circ> fst) (DeleteTask NewWriter db_empty ''1'') =
       Some [JObj [(''status'', JNum 404), (''message'', JStr ''Task not found'')],
             JObj [(''status'', JNum 200), (''message'', JStr ''Task deleted successfully'')]]"
proof -
  have f: "DB_First db_empty ''1'' =
      (Inl ErrRecordNotFound, db_empty\<lparr>calls := [CallFirst ''1'']\<rparr>)"
    by (simp add: DB_First_def inline_condition_def Atoi_def magnitude_def digit_def
        int64_max_def next_fault_def log_call_def db_empty_def)
  have u: "map_option fst (DeleteTask NewWriter db_empty ''1'') =
      Some (writer_404\<lparr>written :=
              [JObj [(''status'', JNum 404), (''message'', JStr ''Task not found'')],
               JObj [(''status'', JNum 200), (''message'', JStr ''Task deleted successfully'')]]\<rparr>)"
    by (simp add: DeleteTask_def f respondWithError_404 respondWithJSON_writer_404
        StatusOK_def)
  have "map_option (response_status \<circ> fst) (DeleteTask NewWriter db_empty ''1'') =
      map_option response_status (map_option fst (DeleteTask NewWriter db_empty ''1''))"
    by (simp add: option.map_comp)
  moreover have "map_option (response_body \<circ> fst) (DeleteTask NewWriter db_empty ''1'') =
      map_option response_body (map_option fst (DeleteTask NewWriter db_empty ''1''))"
    by (simp add: option.map_comp)
  ultimately show ?thesis
    by (simp add: u response_status_def response_body_def writer_404_def)
qed

subsection \<open>The marshalling error\<close>

text \<open>
  Claim C10, as stated: whatever the payload, \<^verbatim>\<open>respondWithJSON\<close> writes the status
  code it is given and a payload that cannot be marshalled gives a response with that
  status and an empty body. The code on the writer that \<^verbatim>\<open>DeleteTask\<close> passes in its
  second call, after the 404 was sent: the status stays 404 for the code 200, and with
  a payload that cannot be marshalled the body is the envelope already written, not
  empty. On a fresh writer, the code 304 is sent without \<^verbatim>\<open>Content-Type\<close>, the code 100
  gives a response with status 200, and the code 0 panics.
\<close>

theorem respondWithJSON_status_not_always_written:
  "respondWithError NewWriter 404 ''Task not found'' = Some writer_404
   \<and> map_option response_status (respondWithJSON writer_404 200 payload_deleted) = Some 404
   \<and> map_option response_status (respondWithJSON writer_404 200 (PValue VUnsupported)) = Some 404
   \<and> map_option response_body (respondWithJSON writer_404 200 (PValue VUnsupported)) =
       Some [JObj [(''status'', JNum 404), (''message'', JStr ''Task not found'')]]
   \<and> map_option response_status (respondWithJSON NewWriter 304 (PValue VUnsupported)) = Some 304
   \<and> map_option sentHeader (respondWithJSON NewWriter 304 (PValue VUnsupported)) = Some []
   \<and> map_option response_status (respondWithJSON NewWriter 100 (PValue VUnsupported)) = Some 200
   \<and> respondWithJSON NewWriter 0 (PValue VUnsupported) = None"
proof -
  have a: "respondWithError NewWriter 404 ''Task not found'' = Some writer_404"
    using respondWithError_404 by (simp add: StatusNotFound_def)
  have b: "respondWithJSON NewWriter 304 (PValue VUnsupported) =
      Some \<lparr>Header = [(''Content-Type'', ''application/json'')], wroteHeader = True,
            status = 304, sentHeader = [], written = []\<rparr>"
    by (simp add: respondWithJSON_def Header_Set_def WriteHeader_def Write_def send_header_def
        suppressedHeaders_def bodyAllowedForStatus_def NewWriter_def)
  have c: "respondWithJSON NewWriter 0 (PValue VUnsupported) = None"
    by (simp add: respondWithJSON_def Header_Set_def WriteHeader_def NewWriter_def)
  have d: "respondWithJSON NewWriter 100 (PValue VUnsupported) =
      Some \<lparr>Header = [(''Content-Type'', ''application/json'')], wroteHeader = True,
            status = 200, sentHeader = [(''Content-Type'', ''application/json'')],
            written = []\<rparr>"
    by (simp add: respondWithJSON_def Header_Set_def WriteHeader_def Write_def send_header_def
        suppressedHeaders_def bodyAllowedForStatus_def sniff_def NewWriter_def)
  show ?thesis
    unfolding a b c d respondWithJSON_writer_404
    by (simp add: response_status_def response_body_def writer_404_def payload_deleted_def)
qed

lemma map_of_filter_keys:
  "k \<notin> set ks \<Longrightarrow> map_of (filter (\<lambda>p. fst p \<notin> set ks) h) k = map_of h k"
  by (induction h) auto

text \<open>
  Claim C10, amended. \<^verbatim>\<open>respondWithJSON\<close> drops the error of the serialisation. On a
  writer on which no status has been sent yet, and for a status code that is 101 or
  from 200 to 999, and not 304, it returns for every payload, the header map and the
  response have \<^verbatim>\<open>Content-Type\<close> \<^verbatim>\<open>application/json\<close>, and the status of the response
  is the code given. A payload that cannot be marshalled gives that response with
  nothing added to the body, which is empty on a fresh writer, and no error. (A payload
  that can be marshalled is added to the body when the status carries one.)
\<close>

theorem respondWithJSON_drops_marshal_error:
  assumes "\<not> wroteHeader w" and "code = 101 \<or> (200 \<le> code \<and> code \<le> 999)"
    and "code \<noteq> 304"
  shows "\<exists>w'. respondWithJSON w code p = Some w'
           \<and> map_of (Header w') ''Content-Type'' = Some ''application/json''
           \<and> response_header w' ''Content-Type'' = Some ''application/json''
           \<and> response_status w' = code
           \<and> response_body w' =
               (if bodyAllowedForStatus code
                then written w @ (case Marshal p of Inl e \<Rightarrow> [] | Inr j \<Rightarrow> [j])
                else written w)
           \<and> (\<forall>e. Marshal p = Inl e \<longrightarrow> response_body w' = written w)"
proof -
  let ?h = "update_header ''Content-Type'' ''application/json'' (Header w)"
  let ?w1 = "Header_Set w ''Content-Type'' ''application/json''"
  have k: "''Content-Type'' \<notin> set (suppressedHeaders code)"
    using assms(3) by (simp add: suppressedHeaders_def)
  have wh: "WriteHeader ?w1 code = Some (send_header code ?w1)"
    using assms(1,2) by (auto simp: WriteHeader_def Header_Set_def)
  have sent: "map_of (sentHeader (send_header code ?w1)) ''Content-Type''
                = Some ''application/json''"
    using k by (simp add: send_header_def Header_Set_def map_of_filter_keys
        map_of_update_header)
  have hdr: "Header (send_header code ?w1) = ?h" "wroteHeader (send_header code ?w1)"
    "status (send_header code ?w1) = code" "written (send_header code ?w1) = written w"
    by (simp_all add: send_header_def Header_Set_def)
  show ?thesis
  proof (cases "bodyAllowedForStatus code")
    case True
    then show ?thesis
      using sent hdr
      by (auto simp add: respondWithJSON_def wh Write_def sniff_def response_header_def
          response_status_def response_body_def map_of_update_header Let_def)
  next
    case False
    then show ?thesis
      using sent hdr
      by (auto simp add: respondWithJSON_def wh Write_def response_header_def
          response_status_def response_body_def map_of_update_header Let_def)
  qed
qed

theorem respondWithJSON_drops_marshal_error_witness:
  "\<not> wroteHeader NewWriter \<and> ((500::int) = 101 \<or> ((200::int) \<le> 500 \<and> (500::int) \<le> 999))
   \<and> (500::int) \<noteq> 304
   \<and> Marshal (PValue VUnsupported) = Inl UnsupportedTypeError
   \<and> map_option response_status (respondWithJSON NewWriter 500 (PValue VUnsupported)) = Some 500
   \<and> map_option response_body (respondWithJSON NewWriter 500 (PValue VUnsupported)) = Some []"
proof -
  have n: "\<not> wroteHeader NewWriter" "written NewWriter = []"
    by (simp_all add: NewWriter_def)
  have h: "(500::int) = 101 \<or> ((200::int) \<le> 500 \<and> (500::int) \<le> 999)" "(500::int) \<noteq> 304"
    by simp_all
  have m: "Marshal (PValue VUnsupported) = Inl UnsupportedTypeError" by simp
  show ?thesis
    using n m respondWithJSON_drops_marshal_error [OF n(1) h, of "PValue VUnsupported"]
    by auto
qed

end
